theory Spec2Isabelle
  imports Complex_Main
begin

section \<open>The NRTidalv2 tidal corrections of ripple (\<^verbatim>\<open>X_NRTidalv2.py\<close>)\<close>

text \<open>
  The embedding follows \<^verbatim>\<open>src/ripple/waveforms/X_NRTidalv2.py\<close> function by function.

  \<^item> A Python/JAX float is read as a \<^typ>\<open>real\<close> and a complex sample as a
    \<^typ>\<open>complex\<close>: rounding, infinities and NaN are not part of the model. Division
    is HOL's total division (\<open>x / 0 = 0\<close>), where JAX yields \<open>inf\<close> or \<open>nan\<close>
    without raising.
  \<^item> A one-dimensional array is a list; an elementwise operation against a scalar is a
    \<open>map\<close>, and an elementwise operation between arrays pairs the samples by position.
    The frequency grid and the baseline strain have the same length (the collaborator
    contract); broadcasting between other shapes is not modelled.
  \<^item> \<^verbatim>\<open>a ** b\<close> with an integer-valued exponent (\<^verbatim>\<open>2.0\<close>, \<^verbatim>\<open>5.0\<close>, \<^verbatim>\<open>4.\<close>) is
    the power \<open>a ^ n\<close>; with a fractional exponent it is \<open>a powr b\<close>, which agrees
    with the code on a non-negative base.
  \<^item> The intrinsic parameter array, always unpacked into six names, is a six-tuple.
  \<^item> A leading underscore cannot start an Isabelle name: \<^verbatim>\<open>_compute_quadparam_octparam\<close>,
    \<^verbatim>\<open>_get_merger_frequency\<close> and \<^verbatim>\<open>_planck_taper\<close> lose it, and \<^verbatim>\<open>_gen_NRTidalv2\<close>
    is \<open>gen_NRTidalv2_inner\<close>.
\<close>

subsection \<open>Constants and collaborators that live outside the file\<close>

text \<open>
  The module \<^verbatim>\<open>ripple.constants\<close> is imported by the file but is not part of it.
  The three physical constants it reads are parameters of every definition below.
\<close>

record constants =
  gt :: real
  m_per_Mpc :: real
  C :: real

text \<open>
  Modelled from the spec: the constant \<^verbatim>\<open>PI\<close> of \<^verbatim>\<open>ripple.constants\<close> is missing from
  the sources; the spec writes it as the number \<open>\<pi>\<close>.
\<close>

definition PI :: real where
  "PI = pi"

text \<open>
  The mass conversion \<^verbatim>\<open>Mc_eta_to_ms\<close> and the baseline generator \<^verbatim>\<open>gen_IMRPhenomD\<close>
  are imported from other modules; the entry points take them as arguments.
\<close>

record collaborators =
  Mc_eta_to_ms :: "real \<times> real \<Rightarrow> real \<times> real"
  gen_IMRPhenomD :: "real list \<Rightarrow> real list \<Rightarrow> real \<Rightarrow> complex list"

type_synonym theta = "real \<times> real \<times> real \<times> real \<times> real \<times> real"

subsection \<open>Array primitives of \<^verbatim>\<open>jax.numpy\<close>\<close>

definition zeros_like :: "'a list \<Rightarrow> 'b::zero list" where
  "zeros_like f = map (\<lambda>_. 0) f"

definition ones_like :: "'a list \<Rightarrow> 'b::one list" where
  "ones_like f = map (\<lambda>_. 1) f"

definition heaviside :: "real \<Rightarrow> real \<Rightarrow> real" where
  "heaviside x1 x2 = (if x1 < 0 then 0 else if x1 = 0 then x2 else 1)"

subsection \<open>The tidal coupling \<open>kappa\<close>\<close>

definition get_kappa :: "constants \<Rightarrow> theta \<Rightarrow> real" where
  "get_kappa K theta =
    (case theta of (m1, m2, chi1, chi2, lambda1, lambda2) \<Rightarrow>
      let m1_s = m1 * gt K;
          m2_s = m2 * gt K;
          M_s = m1_s + m2_s;
          eta = m1_s * m2_s / (M_s ^ 2);
          X1 = m1_s / M_s;
          X2 = m2_s / M_s;
          term1 = (1 + 12 * m2 / m1) * X1 ^ 5 * lambda1;
          term2 = (1 + 12 * m1 / m2) * X2 ^ 5 * lambda2
      in (3 / 13) * (term1 + term2))"

subsection \<open>The tidal phase\<close>

definition get_tidal_phase :: "constants \<Rightarrow> real list \<Rightarrow> theta \<Rightarrow> real \<Rightarrow> real list" where
  "get_tidal_phase K f theta kappa =
    (case theta of (m1, m2, _, _, _, _) \<Rightarrow>
      let m1_s = m1 * gt K;
          m2_s = m2 * gt K;
          M_s = m1_s + m2_s;
          eta = m1_s * m2_s / (M_s ^ 2);
          X1 = m1_s / M_s;
          X2 = m2_s / M_s;
          c_Newt = 2.4375;
          n_1 = - 17.428;
          n_3over2 = 31.867;
          n_2 = - 26.414;
          n_5over2 = 62.362;
          d_1 = n_1 - 2.496;
          d_3over2 = 36.089
      in map (\<lambda>f.
           let M_omega = PI * f * M_s;
               PN_x = M_omega powr (2 / 3);
               PN_x_2 = PN_x * PN_x;
               PN_x_3over2 = PN_x powr (3 / 2);
               PN_x_5over2 = PN_x powr (5 / 2);
               tidal_phase = - kappa * c_Newt / (X1 * X2) * PN_x_5over2;
               num = 1 + (n_1 * PN_x) + (n_3over2 * PN_x_3over2) + (n_2 * PN_x_2)
                       + (n_5over2 * PN_x_5over2);
               den = 1 + (d_1 * PN_x) + (d_3over2 * PN_x_3over2);
               ratio = num / den
           in - kappa * (39 / (16 * eta)) * f powr (5 / 2) * ratio) f)"

subsection \<open>The quadrupole and octupole fit\<close>

definition compute_quadparam_octparam :: "real \<Rightarrow> real \<times> real" where
  "compute_quadparam_octparam lambda =
    (let log_quadparam =
           (if 0 \<le> lambda \<and> lambda \<le> 1
            then 1 + lambda * (0.427688866723244
                     + lambda * (- 0.324336526985068 + lambda * 0.1107439432180572))
            else let log_lambda = ln lambda
                 in 0.1940 + 0.09163 * log_lambda + 0.04812 * log_lambda ^ 2
                      - 0.004286 * log_lambda ^ 3 + 0.00012450 * log_lambda ^ 4);
         log_octparam = 0.003131 + 2.071 * log_quadparam - 0.7152 * log_quadparam ^ 2
                          + 0.2458 * log_quadparam ^ 3 - 0.03309 * log_quadparam ^ 4;
         quadparam = exp log_quadparam - 1;
         octparam = exp log_octparam - 1
     in (quadparam, octparam))"

subsection \<open>The spin-squared phase correction\<close>

definition get_spin_phase_correction :: "constants \<Rightarrow> real list \<Rightarrow> theta \<Rightarrow> real list" where
  "get_spin_phase_correction K f theta =
    (case theta of (m1, m2, chi1, chi2, lambda1, lambda2) \<Rightarrow>
      let m1_s = m1 * gt K;
          m2_s = m2 * gt K;
          M_s = m1_s + m2_s;
          eta = m1_s * m2_s / (M_s ^ 2);
          X1 = m1_s / M_s;
          X2 = m2_s / M_s;
          X1sq = X1 * X1;
          X2sq = X2 * X2;
          chi1_sq = chi1 * chi1;
          chi2_sq = chi2 * chi2;
          (quadparam1, octparam1) = compute_quadparam_octparam lambda1;
          (quadparam2, octparam2) = compute_quadparam_octparam lambda2;
          SS_2 = - 50 * quadparam1 * X1sq * chi1_sq;
          SS_2 = SS_2 + - 50 * quadparam2 * X2sq * chi2_sq;
          SS_3 = (5 / 84) * (9407 + 8218 * X1 - 2016 * X1 ^ 2) * quadparam1 * X1 ^ 2 * chi1 ^ 2;
          SS_3 = SS_3
                 + (5 / 84) * (9407 + 8218 * X2 - 2016 * X2 ^ 2) * quadparam2 * X2 ^ 2 * chi2 ^ 2;
          SS_3p5 = - 400 * PI * (quadparam1 - 1) * chi1_sq * X1sq
                   - 400 * PI * (quadparam2 - 1) * chi2_sq * X2sq;
          SS_3p5 = SS_3p5
                   + 10 * ((X1sq + 308 / 3 * X1) * chi1 + (X2 - 89 / 3 * X2) * chi2)
                        * (quadparam1 - 1) * X1sq * chi1_sq
                   + 10 * ((X2sq + 308 / 3 * X2) * chi2 + (X1sq - 89 / 3 * X1) * chi1)
                        * (quadparam2 - 1) * X2sq * chi2_sq
                   - 440 * octparam1 * X1 * X1sq * chi1_sq * chi1
                   - 440 * octparam2 * X2 * X2sq * chi2_sq * chi2;
          psi_SS = map (\<lambda>f. (3 / (128 * eta))
                     * (SS_2 * f powr (- 1 / 2) + SS_3 * f powr (1 / 2) + SS_3p5 * f)) f;
          psi_SS = zeros_like f
      in psi_SS)"

subsection \<open>The tidal amplitude\<close>

definition get_tidal_amplitude ::
  "constants \<Rightarrow> real list \<Rightarrow> theta \<Rightarrow> real \<Rightarrow> real \<Rightarrow> real list" where
  "get_tidal_amplitude K f theta kappa dL =
    (case theta of (m1, m2, _, _, _, _) \<Rightarrow>
      let m1_s = m1 * gt K;
          m2_s = m2 * gt K;
          M_s = m1_s + m2_s;
          eta = m1_s * m2_s / (M_s ^ 2);
          M_sec = (M_s * gt K);
          prefac = 9 * kappa;
          n1 = 4.157407407407407;
          n289 = 2519.111111111111;
          d = 13477.8073677;
          dist_s = (dL * m_per_Mpc K) / C K
      in map (\<lambda>f.
           let x = (PI * M_sec * f) powr (2 / 3);
               poly = (1 + n1 * x + n289 * x powr 2.89) / (1 + d * x ^ 4);
               ampT = - prefac * x powr 3.25 * poly
           in ampT / dist_s) f)"

text \<open>
  Claim C4 describes the same amplitude with the total mass converted to time units
  once, \<open>M_sec = (m1 + m2) * gt\<close>. \<open>claimed_tidal_amplitude\<close> follows the words of
  the claim, not the source, and serves only to be compared with \<open>get_tidal_amplitude\<close>.
\<close>

definition claimed_tidal_amplitude ::
  "constants \<Rightarrow> real list \<Rightarrow> theta \<Rightarrow> real \<Rightarrow> real \<Rightarrow> real list" where
  "claimed_tidal_amplitude K f theta kappa dL =
    (case theta of (m1, m2, _, _, _, _) \<Rightarrow>
      let M_sec = (m1 + m2) * gt K;
          n1 = 4.157407407407407;
          n289 = 2519.111111111111;
          d = 13477.8073677;
          dist_s = (dL * m_per_Mpc K) / C K
      in map (\<lambda>f.
           let x = (PI * M_sec * f) powr (2 / 3);
               ampT = - 9 * kappa * x powr 3.25 * (1 + n1 * x + n289 * x powr 2.89)
                        / (1 + d * x ^ 4)
           in ampT / dist_s) f)"

subsection \<open>The merger frequency and the Planck taper\<close>

text \<open>
  \<open>Momega_merger\<close> is the local variable of that name in \<^verbatim>\<open>_get_merger_frequency\<close>:
  the body of the function up to the line that assigns it. The optional argument
  \<^verbatim>\<open>kappa=None\<close> is an \<open>option\<close>.
\<close>

definition Momega_merger :: "constants \<Rightarrow> theta \<Rightarrow> real option \<Rightarrow> real" where
  "Momega_merger K theta kappa =
    (case theta of (m1, m2, chi1, chi2, lambda1, lambda2) \<Rightarrow>
      let m1_s = m1 * gt K;
          m2_s = m2 * gt K;
          M_s = m1_s + m2_s;
          q = m1_s / m2_s;
          X1 = m1_s / M_s;
          X2 = m2_s / M_s;
          kappa = (case kappa of None \<Rightarrow> get_kappa K theta | Some k \<Rightarrow> k);
          a_0 = 0.3586;
          n_1 = 3.35411203 / 10 ^ 2;
          n_2 = 4.31460284 / 10 ^ 5;
          d_1 = 7.54224145 / 10 ^ 2;
          d_2 = 2.23626859 / 10 ^ 4;
          kappa_sq = kappa ^ 2;
          num = 1 + n_1 * kappa + n_2 * kappa ^ 2;
          den = 1 + d_1 * kappa + d_2 * kappa ^ 2;
          Q_0 = a_0 * sqrt (X2 / X1)
      in Q_0 * (num / den))"

definition get_merger_frequency :: "constants \<Rightarrow> theta \<Rightarrow> real option \<Rightarrow> real" where
  "get_merger_frequency K theta kappa =
    (case theta of (m1, m2, chi1, chi2, lambda1, lambda2) \<Rightarrow>
      let m1_s = m1 * gt K;
          m2_s = m2 * gt K;
          M_s = m1_s + m2_s;
          fHz_merger = Momega_merger K theta kappa / M_s / (2 * PI)
      in fHz_merger)"

definition planck_taper :: "real list \<Rightarrow> real \<Rightarrow> real \<Rightarrow> real list" where
  "planck_taper t t1 t2 =
    map (\<lambda>t.
      let middle = 1 / (exp ((t2 - t1) / (t - t1) + (t2 - t1) / (t - t2)) + 1)
      in heaviside (t1 - t) 1 * 0
         + heaviside (t - t1) 1 * heaviside (t2 - t) 1 * middle
         + heaviside (t - t2) 1 * 1) t"

definition get_planck_taper :: "constants \<Rightarrow> real list \<Rightarrow> theta \<Rightarrow> real \<Rightarrow> real list" where
  "get_planck_taper K f theta kappa =
    (let f_merger = get_merger_frequency K theta (Some kappa);
         f_start = f_merger;
         f_end = 1.2 * f_merger;
         A_P = planck_taper f f_start f_end;
         A_P = zeros_like f
     in A_P)"

subsection \<open>The combiner and the two entry points\<close>

text \<open>
  The last line of \<^verbatim>\<open>_gen_NRTidalv2\<close> multiplies six arrays sample by sample;
  \<open>combine\<close> is that line. \<^verbatim>\<open>psi_bbh\<close> is the complex quotient \<^verbatim>\<open>h0_bbh / A_bbh\<close>.
\<close>

definition combine ::
  "real list \<Rightarrow> complex list \<Rightarrow> real list \<Rightarrow> complex list \<Rightarrow> real list \<Rightarrow> real list
     \<Rightarrow> complex list" where
  "combine A_P h0_bbh A_T psi_bbh psi_T psi_SS =
    map (\<lambda>(a_P, h, a_T, p_bbh, p_T, p_SS).
          of_real a_P * (h + of_real a_T * exp (\<i> * - p_bbh))
            * exp (\<i> * - of_real (p_T + p_SS)))
      (zip A_P (zip h0_bbh (zip A_T (zip psi_bbh (zip psi_T psi_SS)))))"

definition gen_NRTidalv2_inner ::
  "constants \<Rightarrow> real list \<Rightarrow> theta \<Rightarrow> real list \<Rightarrow> complex list \<Rightarrow> complex list" where
  "gen_NRTidalv2_inner K f theta_intrinsic theta_extrinsic h0_bbh =
    (case theta_intrinsic of (m1, m2, chi1, chi2, lambda1, lambda2) \<Rightarrow>
      let M_s = (m1 + m2) * gt K;
          kappa = get_kappa K theta_intrinsic;
          A_bbh = map cmod h0_bbh;
          psi_bbh = map2 (\<lambda>h a. h / of_real a) h0_bbh A_bbh;
          A_T = get_tidal_amplitude K f theta_intrinsic kappa (theta_extrinsic ! 0);
          A_P = map2 (-) (ones_like f) (get_planck_taper K f theta_intrinsic kappa);
          psi_T = get_tidal_phase K (map (\<lambda>x. x * M_s) f) theta_intrinsic kappa;
          psi_SS = get_spin_phase_correction K (map (\<lambda>x. x * M_s) f) theta_intrinsic
      in combine A_P h0_bbh A_T psi_bbh psi_T psi_SS)"

text \<open>
  \<^verbatim>\<open>gen_NRTidalv2\<close> reads its parameter array by position. The guard on the name of
  the baseline returns \<^verbatim>\<open>jnp.zeros_like(f)\<close>, whose samples are read here as the
  complex number zero. The two \<^verbatim>\<open>print\<close> calls write to standard output only.
\<close>

definition gen_NRTidalv2 ::
  "constants \<Rightarrow> collaborators \<Rightarrow> real list \<Rightarrow> real list \<Rightarrow> real \<Rightarrow> string \<Rightarrow> complex list" where
  "gen_NRTidalv2 K E f params f_ref IMRphenom =
    (let (m1, m2) = Mc_eta_to_ms E (params ! 0, params ! 1);
         theta_intrinsic = (m1, m2, params ! 2, params ! 3, params ! 4, params ! 5);
         theta_extrinsic = drop 6 params;
         bbh_params = [params ! 0, params ! 1, params ! 2, params ! 3] @ theta_extrinsic
     in if IMRphenom = ''IMRPhenomD''
        then let h0_bbh = gen_IMRPhenomD E f bbh_params f_ref
             in gen_NRTidalv2_inner K f theta_intrinsic theta_extrinsic h0_bbh
        else zeros_like f)"

definition gen_NRTidalv2_hphc ::
  "constants \<Rightarrow> collaborators \<Rightarrow> real list \<Rightarrow> real list \<Rightarrow> real \<Rightarrow> string
     \<Rightarrow> complex list \<times> complex list" where
  "gen_NRTidalv2_hphc K E f params f_ref IMRphenom =
    (let iota = last params;
         h0 = gen_NRTidalv2 K E f (butlast params) f_ref IMRphenom;
         hp = map (\<lambda>h. h * of_real (1 / 2 * (1 + cos iota ^ 2))) h0;
         hc = map (\<lambda>h. - \<i> * h * of_real (cos iota)) h0
     in (hp, hc))"

subsection \<open>Sample values for the witnesses\<close>

text \<open>
  A constants record with SI values of the usual magnitude, a mass conversion that
  answers \<open>(1.4, 1.35)\<close> solar masses and a baseline generator that answers the strain
  \<open>1 + 0\<i>\<close> on every sample. They instantiate the parameters in closed theorems only.
\<close>

definition sample_constants :: constants where
  "sample_constants =
     \<lparr>gt = 4925491025543576 / 10 ^ 21, m_per_Mpc = 3085677581491367 * 10 ^ 7, C = 299792458\<rparr>"

definition sample_Mc_eta_to_ms :: "real \<times> real \<Rightarrow> real \<times> real" where
  "sample_Mc_eta_to_ms m = (1.4, 1.35)"

definition sample_bbh :: "real list \<Rightarrow> real list \<Rightarrow> real \<Rightarrow> complex list" where
  "sample_bbh f params f_ref = ones_like f"

definition sample_collaborators :: collaborators where
  "sample_collaborators =
     \<lparr>Mc_eta_to_ms = sample_Mc_eta_to_ms, gen_IMRPhenomD = sample_bbh\<rparr>"

section \<open>Properties\<close>

subsection \<open>Shapes and the two overrides\<close>

lemma length_get_tidal_amplitude [simp]:
  "length (get_tidal_amplitude K f theta kappa dL) = length f"
  by (simp add: get_tidal_amplitude_def Let_def split: prod.splits)

lemma length_get_tidal_phase [simp]:
  "length (get_tidal_phase K f theta kappa) = length f"
  by (simp add: get_tidal_phase_def Let_def split: prod.splits)

lemma spin_phase_correction_zeros:
  "get_spin_phase_correction K f theta = zeros_like f"
  by (simp add: get_spin_phase_correction_def Let_def split: prod.splits)

lemma planck_taper_zeros:
  "get_planck_taper K f theta kappa = zeros_like f"
  by (simp add: get_planck_taper_def Let_def)

lemma psi_bbh_map:
  "map2 (\<lambda>h a. h / of_real a) h0_bbh (map cmod h0_bbh)
     = map (\<lambda>h. h / of_real (cmod h)) h0_bbh"
  by (induction h0_bbh) simp_all

lemma ones_minus_zeros:
  "map2 (-) (ones_like f) (zeros_like f) = replicate (length f) (1::real)"
  by (induction f) (simp_all add: ones_like_def zeros_like_def)

lemma combine_zero_psi_SS:
  assumes "length psi_T = n"
  shows "combine A_P h0_bbh A_T psi_bbh psi_T (replicate n 0) =
         map (\<lambda>(a_P, h, a_T, p_bbh, p_T).
               of_real a_P * (h + of_real a_T * exp (\<i> * - p_bbh)) * exp (\<i> * - of_real p_T))
           (zip A_P (zip h0_bbh (zip A_T (zip psi_bbh psi_T))))"
  using assms by (auto simp: combine_def list_eq_iff_nth_eq)

lemma combine_one_A_P:
  assumes "length A_T = n"
  shows "combine (replicate n 1) h0_bbh A_T psi_bbh psi_T psi_SS =
         map (\<lambda>(h, a_T, p_bbh, p_T, p_SS).
               (h + of_real a_T * exp (\<i> * - p_bbh)) * exp (\<i> * - of_real (p_T + p_SS)))
           (zip h0_bbh (zip A_T (zip psi_bbh (zip psi_T psi_SS))))"
  using assms by (auto simp: combine_def list_eq_iff_nth_eq)

subsection \<open>Exchange of the two bodies\<close>

lemma get_kappa_swap:
  "get_kappa K (m2, m1, chi2, chi1, lambda2, lambda1)
     = get_kappa K (m1, m2, chi1, chi2, lambda1, lambda2)"
  by (simp add: get_kappa_def Let_def add.commute)

lemma get_tidal_amplitude_swap:
  "get_tidal_amplitude K f (m2, m1, chi2, chi1, lambda2, lambda1) kappa dL =
   get_tidal_amplitude K f (m1, m2, chi1, chi2, lambda1, lambda2) kappa dL"
  by (simp add: get_tidal_amplitude_def Let_def add.commute)

lemma get_tidal_phase_swap:
  "get_tidal_phase K f (m2, m1, chi2, chi1, lambda2, lambda1) kappa =
   get_tidal_phase K f (m1, m2, chi1, chi2, lambda1, lambda2) kappa"
  by (simp add: get_tidal_phase_def Let_def add.commute mult.commute)

text \<open>
  Claim C1. Exchanging the labels of the two bodies, \<open>(m1, chi1, lambda1)\<close> with
  \<open>(m2, chi2, lambda2)\<close>, changes neither the value of \<open>get_kappa\<close> nor the combined
  strain that \<open>_gen_NRTidalv2\<close> returns for the same frequency grid, extrinsic parameters
  and baseline strain.
\<close>

theorem exchange_symmetry:
  "get_kappa K (m2, m1, chi2, chi1, lambda2, lambda1)
     = get_kappa K (m1, m2, chi1, chi2, lambda1, lambda2)
   \<and> gen_NRTidalv2_inner K f (m2, m1, chi2, chi1, lambda2, lambda1) theta_extrinsic h0_bbh
     = gen_NRTidalv2_inner K f (m1, m2, chi1, chi2, lambda1, lambda2) theta_extrinsic h0_bbh"
  unfolding gen_NRTidalv2_inner_def
  by (simp add: get_kappa_swap get_tidal_amplitude_swap get_tidal_phase_swap
      spin_phase_correction_zeros planck_taper_zeros add.commute Let_def)

subsection \<open>The disabled corrections\<close>

text \<open>
  Claim C2. For every frequency array and every intrinsic parameter tuple,
  \<open>get_spin_phase_correction\<close> returns the zero array of the length of its argument:
  the spin-squared series is computed and then overridden. Hence the combined strain of
  \<open>_gen_NRTidalv2\<close> carries the phase factor of the tidal phase \<open>psi_T\<close> alone at every
  sample.
\<close>

theorem spin_phase_correction_disabled:
  "get_spin_phase_correction K f theta = replicate (length f) 0
   \<and> gen_NRTidalv2_inner K f (m1, m2, chi1, chi2, lambda1, lambda2) theta_extrinsic h0_bbh =
      (let theta_intrinsic = (m1, m2, chi1, chi2, lambda1, lambda2);
           M_s = (m1 + m2) * gt K;
           kappa = get_kappa K theta_intrinsic;
           psi_bbh = map (\<lambda>h. h / of_real (cmod h)) h0_bbh;
           A_T = get_tidal_amplitude K f theta_intrinsic kappa (theta_extrinsic ! 0);
           A_P = map2 (-) (ones_like f) (get_planck_taper K f theta_intrinsic kappa);
           psi_T = get_tidal_phase K (map (\<lambda>x. x * M_s) f) theta_intrinsic kappa
       in map (\<lambda>(a_P, h, a_T, p_bbh, p_T).
               of_real a_P * (h + of_real a_T * exp (\<i> * - p_bbh)) * exp (\<i> * - of_real p_T))
           (zip A_P (zip h0_bbh (zip A_T (zip psi_bbh psi_T)))))"
  by (simp add: gen_NRTidalv2_inner_def spin_phase_correction_zeros zeros_like_def Let_def
      combine_zero_psi_SS map_replicate_const psi_bbh_map)

text \<open>
  Claim C3. For every frequency array, intrinsic parameter tuple and \<open>kappa\<close>,
  \<open>get_planck_taper\<close> returns the zero array, so the window \<open>A_P = 1 - taper\<close> of
  \<open>_gen_NRTidalv2\<close> is \<open>1\<close> at every sample and the combined strain is not suppressed
  at any frequency.
\<close>

theorem planck_taper_disabled:
  "get_planck_taper K f theta kappa = replicate (length f) 0
   \<and> map2 (-) (ones_like f) (get_planck_taper K f theta kappa) = replicate (length f) (1::real)
   \<and> gen_NRTidalv2_inner K f (m1, m2, chi1, chi2, lambda1, lambda2) theta_extrinsic h0_bbh =
      (let theta_intrinsic = (m1, m2, chi1, chi2, lambda1, lambda2);
           M_s = (m1 + m2) * gt K;
           kappa = get_kappa K theta_intrinsic;
           psi_bbh = map (\<lambda>h. h / of_real (cmod h)) h0_bbh;
           A_T = get_tidal_amplitude K f theta_intrinsic kappa (theta_extrinsic ! 0);
           psi_T = get_tidal_phase K (map (\<lambda>x. x * M_s) f) theta_intrinsic kappa;
           psi_SS = get_spin_phase_correction K (map (\<lambda>x. x * M_s) f) theta_intrinsic
       in map (\<lambda>(h, a_T, p_bbh, p_T, p_SS).
               (h + of_real a_T * exp (\<i> * - p_bbh)) * exp (\<i> * - of_real (p_T + p_SS)))
           (zip h0_bbh (zip A_T (zip psi_bbh (zip psi_T psi_SS)))))"
  using psi_bbh_map [of h0_bbh] ones_minus_zeros [of f]
  by (simp add: gen_NRTidalv2_inner_def planck_taper_zeros Let_def combine_one_A_P)
     (simp add: zeros_like_def map_replicate_const)

subsection \<open>The limit of vanishing deformabilities\<close>

text \<open>
  Claim C5. With \<open>lambda1 = lambda2 = 0\<close>, \<open>get_kappa\<close> is exactly \<open>0\<close>; and with that
  \<open>kappa\<close>, on a grid of strictly positive frequencies, every sample of the tidal phase
  of \<open>get_tidal_phase\<close> and of the tidal amplitude of \<open>get_tidal_amplitude\<close> is
  exactly \<open>0\<close>.
\<close>

theorem bbh_limit:
  "get_kappa K (m1, m2, chi1, chi2, 0, 0) = 0
   \<and> ((\<forall>x \<in> set f. 0 < x) \<longrightarrow>
        get_tidal_phase K f (m1, m2, chi1, chi2, 0, 0) (get_kappa K (m1, m2, chi1, chi2, 0, 0))
          = replicate (length f) 0
      \<and> get_tidal_amplitude K f (m1, m2, chi1, chi2, 0, 0)
            (get_kappa K (m1, m2, chi1, chi2, 0, 0)) dL
          = replicate (length f) 0)"
proof -
  have k: "get_kappa K (m1, m2, chi1, chi2, 0, 0) = 0"
    by (simp add: get_kappa_def)
  show ?thesis unfolding k
    by (simp add: get_tidal_phase_def get_tidal_amplitude_def Let_def map_replicate_const)
qed

theorem bbh_limit_witness:
  "(0::real) < 100
   \<and> get_kappa sample_constants (1.4, 1.35, 0, 0, 0, 0) = 0
   \<and> get_tidal_phase sample_constants [100] (1.4, 1.35, 0, 0, 0, 0)
        (get_kappa sample_constants (1.4, 1.35, 0, 0, 0, 0)) = [0]
   \<and> get_tidal_amplitude sample_constants [100] (1.4, 1.35, 0, 0, 0, 0)
        (get_kappa sample_constants (1.4, 1.35, 0, 0, 0, 0)) 40 = [0]"
  using bbh_limit [of sample_constants "1.4" "1.35" 0 0 "[100]" 40] by auto

subsection \<open>The guard on the name of the baseline\<close>



subsection \<open>The low branch of the quadrupole fit\<close>

text \<open>
  Claim C7. For every \<open>\<Lambda>\<close> with \<open>0 \<le> \<Lambda> \<le> 1\<close>, both ends included,
  \<open>_compute_quadparam_octparam\<close> takes the polynomial branch; at \<open>\<Lambda> = 0\<close> the
  logarithm of the quadrupole parameter is \<open>1\<close>, so the quadrupole parameter is
  \<open>e - 1\<close>, which is not \<open>0\<close>.
\<close>

theorem quadparam_low_branch:
  "(0 \<le> lambda \<and> lambda \<le> 1 \<longrightarrow>
      compute_quadparam_octparam lambda =
        (let log_quadparam = 1 + lambda * (0.427688866723244
                     + lambda * (- 0.324336526985068 + lambda * 0.1107439432180572));
             log_octparam = 0.003131 + 2.071 * log_quadparam - 0.7152 * log_quadparam ^ 2
                          + 0.2458 * log_quadparam ^ 3 - 0.03309 * log_quadparam ^ 4
         in (exp log_quadparam - 1, exp log_octparam - 1)))
   \<and> fst (compute_quadparam_octparam 0) = exp 1 - 1
   \<and> fst (compute_quadparam_octparam 0) \<noteq> 0
   \<and> fst (compute_quadparam_octparam 1)
       = exp (1 + (0.427688866723244 + (- 0.324336526985068 + 0.1107439432180572))) - 1"
  by (simp add: compute_quadparam_octparam_def Let_def)

theorem quadparam_low_branch_witness:
  "0 \<le> (1 / 2 :: real) \<and> (1 / 2 :: real) \<le> 1
   \<and> fst (compute_quadparam_octparam (1 / 2))
       = exp (1 + (1 / 2) * (0.427688866723244
                + (1 / 2) * (- 0.324336526985068 + (1 / 2) * 0.1107439432180572))) - 1"
  using quadparam_low_branch [of "1 / 2"] by (simp add: Let_def)

subsection \<open>The tidal amplitude and the mass conversion\<close>

lemma pade_upper:
  fixes y :: real
  assumes "0 \<le> y" "y \<le> 1"
  shows "(1 + 4.157407407407407 * y + 2519.111111111111 * y powr 2.89)
           / (1 + 13477.8073677 * y ^ 4) \<le> 2525"
proof -
  have p: "y powr 2.89 \<le> 1" using assms by (intro powr_le1) simp_all
  have num: "1 + 4.157407407407407 * y + 2519.111111111111 * y powr 2.89 \<le> 2525"
    using assms p by simp
  have den: "1 \<le> 1 + 13477.8073677 * y ^ 4" using assms by simp
  have "(1 + 4.157407407407407 * y + 2519.111111111111 * y powr 2.89)
           / (1 + 13477.8073677 * y ^ 4)
        \<le> 2525 / 1"
    using num den by (intro frac_le) simp_all
  then show ?thesis by simp
qed

lemma pade_lower:
  fixes x :: real
  assumes "0 \<le> x" "x \<le> 1"
  shows "1 / 13479 \<le> (1 + 4.157407407407407 * x + 2519.111111111111 * x powr 2.89)
           / (1 + 13477.8073677 * x ^ 4)"
proof -
  have x4: "x ^ 4 \<le> 1" using assms by (simp add: power_le_one)
  have num: "1 \<le> 1 + 4.157407407407407 * x + 2519.111111111111 * x powr 2.89"
    using assms by simp
  have den: "1 + 13477.8073677 * x ^ 4 \<le> 13479" using x4 by simp
  have dpos: "0 < 1 + 13477.8073677 * x ^ 4"
    using assms by (intro add_pos_nonneg) simp_all
  show ?thesis using num den dpos by (intro frac_le) simp_all
qed

lemma pade_gap:
  fixes x s :: real
  assumes x: "0 < x" "x \<le> 1" and s: "0 < s" "s \<le> 1"
    and small: "s powr 3.25 * (2525 * 13479) < 1"
  shows "(s * x) powr 3.25 * ((1 + 4.157407407407407 * (s * x)
              + 2519.111111111111 * (s * x) powr 2.89) / (1 + 13477.8073677 * (s * x) ^ 4))
       < x powr 3.25 * ((1 + 4.157407407407407 * x + 2519.111111111111 * x powr 2.89)
              / (1 + 13477.8073677 * x ^ 4))"
proof -
  have sx: "0 \<le> s * x" "s * x \<le> 1"
    using x s by (simp_all add: mult_le_one)
  have xp: "0 < x powr 3.25" using x by simp
  have "(s * x) powr 3.25 * ((1 + 4.157407407407407 * (s * x)
              + 2519.111111111111 * (s * x) powr 2.89) / (1 + 13477.8073677 * (s * x) ^ 4))
        \<le> (s * x) powr 3.25 * 2525"
    by (intro mult_left_mono pade_upper sx) simp
  also have "\<dots> = x powr 3.25 * (s powr 3.25 * 2525)"
    by (simp add: powr_mult)
  also have "\<dots> < x powr 3.25 * (1 / 13479)"
    using small xp by (intro mult_strict_left_mono) simp_all
  also have "\<dots> \<le> x powr 3.25 * ((1 + 4.157407407407407 * x + 2519.111111111111 * x powr 2.89)
              / (1 + 13477.8073677 * x ^ 4))"
    using x by (intro mult_left_mono pade_lower) simp_all
  finally show ?thesis .
qed

lemma gt_small:
  fixes g :: real
  assumes "0 < g" "g \<le> 1 / 10 ^ 5"
  shows "(g powr (2 / 3)) powr 3.25 * (2525 * 13479) < 1"
proof -
  have g1: "g \<le> 1" using assms by simp
  have "(g powr (2 / 3)) powr 3.25 = g powr (13 / 6)"
    by (simp add: powr_powr)
  also have "\<dots> \<le> g powr 2"
    using assms g1 by (intro powr_mono') simp_all
  also have "\<dots> = g ^ 2" using assms by simp
  also have "\<dots> \<le> (1 / 10 ^ 5) ^ 2"
    using assms by (intro power_mono) simp_all
  finally have "(g powr (2 / 3)) powr 3.25 \<le> (1 / 10 ^ 5) ^ 2" .
  then have "(g powr (2 / 3)) powr 3.25 * (2525 * 13479) \<le> (1 / 10 ^ 5) ^ 2 * (2525 * 13479)"
    by (intro mult_right_mono) simp_all
  also have "\<dots> < (1::real)" by (simp add: power2_eq_square)
  finally show ?thesis .
qed

lemma tidal_amplitude_gap:
  assumes g: "0 < gt K" "gt K \<le> 1 / 10 ^ 5"
    and M: "0 < m1 + m2" and f: "0 < f"
    and b1: "PI * ((m1 + m2) * gt K) * f \<le> 1"
    and pos: "0 < kappa" "0 < dL" "0 < m_per_Mpc K" "0 < C K"
  shows "get_tidal_amplitude K [f] (m1, m2, chi1, chi2, lambda1, lambda2) kappa dL
       \<noteq> claimed_tidal_amplitude K [f] (m1, m2, chi1, chi2, lambda1, lambda2) kappa dL"
proof -
  define b where "b = PI * ((m1 + m2) * gt K) * f"
  define x where "x = b powr (2 / 3)"
  define s where "s = gt K powr (2 / 3)"
  define G where "G y = y powr 3.25 * ((1 + 4.157407407407407 * y
      + 2519.111111111111 * y powr 2.89) / (1 + 13477.8073677 * y ^ 4))" for y :: real
  define dist_s where "dist_s = (dL * m_per_Mpc K) / C K"
  have b0: "0 < b"
    unfolding b_def PI_def using g M f by (intro mult_pos_pos) simp_all
  have b1': "b \<le> 1"
    using b1 by (simp add: b_def)
  have x: "0 < x" "x \<le> 1"
    unfolding x_def using b0 b1' by (simp_all add: powr_le1)
  have s: "0 < s" "s \<le> 1"
    unfolding s_def using g by (simp_all add: powr_le1)
  have small: "s powr 3.25 * (2525 * 13479) < 1"
    unfolding s_def using g by (rule gt_small)
  have arg: "PI * ((m1 * gt K + m2 * gt K) * gt K) * f = gt K * b"
    by (simp add: b_def algebra_simps)
  have code_x: "(PI * ((m1 * gt K + m2 * gt K) * gt K) * f) powr (2 / 3) = s * x"
    unfolding arg by (simp add: powr_mult s_def x_def)
  have gap: "G (s * x) < G x"
    unfolding G_def using x s small by (rule pade_gap)
  have d: "0 < dist_s"
    unfolding dist_s_def using pos by simp
  define a where "a = - (9 * kappa) * G (s * x) / dist_s"
  define c where "c = - (9 * kappa) * G x / dist_s"
  have code: "get_tidal_amplitude K [f] (m1, m2, chi1, chi2, lambda1, lambda2) kappa dL = [a]"
    by (simp add: get_tidal_amplitude_def Let_def code_x G_def dist_s_def a_def)
  have claim: "claimed_tidal_amplitude K [f] (m1, m2, chi1, chi2, lambda1, lambda2) kappa dL = [c]"
    by (simp add: claimed_tidal_amplitude_def Let_def x_def b_def G_def dist_s_def c_def)
  have "9 * kappa * G (s * x) < 9 * kappa * G x"
    using gap pos by simp
  then have "9 * kappa * G (s * x) / dist_s < 9 * kappa * G x / dist_s"
    using d by (rule divide_strict_right_mono)
  then have "c < a"
    by (simp add: a_def c_def)
  then have "a \<noteq> c" by simp
  then show ?thesis unfolding code claim by simp
qed

text \<open>
  Claim C4. The claim reads the Pade variable as \<open>x = (\<pi> M_sec f) powr (2/3)\<close> with
  \<open>M_sec = (m1 + m2) * gt\<close>, the mass converted once. The source converts twice:
  \<open>M_s\<close> already holds \<open>m1 * gt + m2 * gt\<close> and \<open>M_sec = M_s * gt\<close>. At the
  frequency \<open>100\<close> Hz, masses \<open>1.4\<close> and \<open>1.35\<close>, \<open>kappa = 100\<close> and distance
  \<open>40\<close> Mpc the returned amplitude differs from the one the claim describes.
\<close>

theorem tidal_amplitude_double_conversion:
  "get_tidal_amplitude sample_constants [100] (7 / 5, 27 / 20, 0, 0, 400, 400) 100 40
     \<noteq> claimed_tidal_amplitude sample_constants [100] (7 / 5, 27 / 20, 0, 0, 400, 400) 100 40"
proof (rule tidal_amplitude_gap)
  have "pi * (11 / 4 * (4925491025543576 / 10 ^ 21)) * 100 \<le> 4 * (11 / 4 * (4925491025543576 / 10 ^ 21)) * 100"
    using pi_less_4 by (intro mult_right_mono) simp_all
  also have "\<dots> \<le> (1::real)" by simp
  finally show "PI * ((7 / 5 + 27 / 20) * gt sample_constants) * 100 \<le> 1"
    by (simp add: PI_def sample_constants_def)
qed (simp_all add: sample_constants_def)

subsection \<open>The merger frequency as a function of \<open>kappa\<close>\<close>

lemma merger_fit_decreasing:
  fixes k1 k2 :: real
  assumes "0 \<le> k1" "k1 < k2"
  shows "(1 + 3.35411203 / 10 ^ 2 * k2 + 4.31460284 / 10 ^ 5 * k2 ^ 2)
           / (1 + 7.54224145 / 10 ^ 2 * k2 + 2.23626859 / 10 ^ 4 * k2 ^ 2)
         < (1 + 3.35411203 / 10 ^ 2 * k1 + 4.31460284 / 10 ^ 5 * k1 ^ 2)
           / (1 + 7.54224145 / 10 ^ 2 * k1 + 2.23626859 / 10 ^ 4 * k1 ^ 2)"
proof -
  define n1 :: real where "n1 = 3.35411203 / 10 ^ 2"
  define n2 :: real where "n2 = 4.31460284 / 10 ^ 5"
  define d1 :: real where "d1 = 7.54224145 / 10 ^ 2"
  define d2 :: real where "d2 = 2.23626859 / 10 ^ 4"
  define N where "N k = 1 + n1 * k + n2 * k ^ 2" for k
  define D where "D k = 1 + d1 * k + d2 * k ^ 2" for k
  have pos: "0 < d1" "0 < d2" "0 < d1 - n1" "0 < d2 - n2" "0 < n1 * d2 - n2 * d1"
    by (simp_all add: n1_def n2_def d1_def d2_def)
  have k2: "0 < k2" using assms by simp
  have D1: "0 < D k1"
    unfolding D_def using pos assms
    by (intro add_pos_nonneg add_nonneg_nonneg mult_nonneg_nonneg) simp_all
  have D2: "0 < D k2"
    unfolding D_def using pos k2
    by (intro add_pos_nonneg add_nonneg_nonneg mult_nonneg_nonneg) simp_all
  have id: "N k1 * D k2 - N k2 * D k1
        = (k2 - k1) * ((d1 - n1) + (d2 - n2) * (k1 + k2) + (n1 * d2 - n2 * d1) * (k1 * k2))"
    unfolding N_def D_def by (simp add: algebra_simps power2_eq_square)
  have "0 < (d1 - n1) + (d2 - n2) * (k1 + k2) + (n1 * d2 - n2 * d1) * (k1 * k2)"
    using pos assms k2
    by (intro add_pos_nonneg mult_nonneg_nonneg) simp_all
  with assms have "0 < N k1 * D k2 - N k2 * D k1"
    unfolding id by (intro mult_pos_pos) simp_all
  then have "N k2 * D k1 < N k1 * D k2" by simp
  then have "N k2 / D k2 < N k1 / D k1"
    using D1 D2 by (simp add: field_simps)
  then show ?thesis
    by (simp add: N_def D_def n1_def n2_def d1_def d2_def)
qed

lemma Momega_merger_eq:
  "Momega_merger K (m1, m2, chi1, chi2, lambda1, lambda2) (Some kappa) =
     0.3586 * sqrt ((m2 * gt K / (m1 * gt K + m2 * gt K)) / (m1 * gt K / (m1 * gt K + m2 * gt K)))
       * ((1 + 3.35411203 / 10 ^ 2 * kappa + 4.31460284 / 10 ^ 5 * kappa ^ 2)
           / (1 + 7.54224145 / 10 ^ 2 * kappa + 2.23626859 / 10 ^ 4 * kappa ^ 2))"
  by (simp add: Momega_merger_def Let_def)

lemma mass_ratio:
  fixes m1 m2 g :: real
  assumes "g \<noteq> 0" "0 < m1" "0 < m2"
  shows "(m2 * g / (m1 * g + m2 * g)) / (m1 * g / (m1 * g + m2 * g)) = m2 / m1"
proof -
  define M where "M = m1 * g + m2 * g"
  have "M = (m1 + m2) * g" by (simp add: M_def algebra_simps)
  moreover have "m1 + m2 \<noteq> 0" using assms by simp
  ultimately have M: "M \<noteq> 0" using assms by simp
  have "(m2 * g / M) / (m1 * g / M) = (m2 * g) / (m1 * g)"
    using M by simp
  also have "\<dots> = m2 / m1" using assms by simp
  finally show ?thesis by (simp add: M_def)
qed

text \<open>
  Claim C8. For fixed positive masses, the dimensionless angular merger frequency
  \<open>Momega_merger = Q_0 * num / den\<close> of \<open>_get_merger_frequency\<close> is strictly
  decreasing in \<open>kappa\<close> on \<open>kappa \<ge> 0\<close>.
\<close>

theorem Momega_merger_decreasing:
  assumes "gt K \<noteq> 0" "0 < m1" "0 < m2" "0 \<le> k1" "k1 < k2"
  shows "Momega_merger K (m1, m2, chi1, chi2, lambda1, lambda2) (Some k2)
       < Momega_merger K (m1, m2, chi1, chi2, lambda1, lambda2) (Some k1)"
proof -
  have "0 < m2 / m1" using assms by simp
  then have "0 < 0.3586 * sqrt (m2 / m1)" by simp
  then show ?thesis
    unfolding Momega_merger_eq mass_ratio [OF assms(1-3)]
    using merger_fit_decreasing [OF assms(4,5)]
    by (intro mult_strict_left_mono) simp_all
qed

theorem Momega_merger_decreasing_witness:
  "gt sample_constants \<noteq> 0 \<and> (0::real) < 1.4 \<and> (0::real) < 1.35 \<and> (0::real) \<le> 0 \<and> (0::real) < 100
   \<and> Momega_merger sample_constants (1.4, 1.35, 0, 0, 400, 400) (Some 100)
       < Momega_merger sample_constants (1.4, 1.35, 0, 0, 400, 400) (Some 0)"
  using Momega_merger_decreasing [of sample_constants "1.4" "1.35" 0 100 0 0 400 400]
  by (simp add: sample_constants_def)

subsection \<open>The polarization projection\<close>

lemma sample_strain:
  "gen_NRTidalv2 sample_constants sample_collaborators [100]
      [6 / 5, 1 / 4, 0, 0, 0, 0, 40, 0, 0] 20 ''IMRPhenomD'' = [1]"
  by (simp add: gen_NRTidalv2_def sample_collaborators_def sample_Mc_eta_to_ms_def sample_bbh_def
      gen_NRTidalv2_inner_def get_kappa_def Let_def ones_like_def
      spin_phase_correction_zeros planck_taper_zeros zeros_like_def combine_def
      get_tidal_amplitude_def get_tidal_phase_def)

text \<open>
  Claim C9 as stated: at inclination \<open>0\<close> the cross polarization is \<open>0\<close>. With the
  sample baseline \<open>1 + 0\<i>\<close> and vanishing deformabilities the combined strain is
  \<open>1\<close> and the cross polarization is \<open>- \<i>\<close>.
\<close>

theorem face_on_cross_not_zero:
  "last [6 / 5, 1 / 4, 0, 0, 0, 0, 40, 0, 0, 0 :: real] = 0
   \<and> snd (gen_NRTidalv2_hphc sample_constants sample_collaborators [100]
        [6 / 5, 1 / 4, 0, 0, 0, 0, 40, 0, 0, 0] 20 ''IMRPhenomD'') = [- \<i>]
   \<and> snd (gen_NRTidalv2_hphc sample_constants sample_collaborators [100]
        [6 / 5, 1 / 4, 0, 0, 0, 0, 40, 0, 0, 0] 20 ''IMRPhenomD'') \<noteq> [0]"
  by (simp add: gen_NRTidalv2_hphc_def Let_def sample_strain)

text \<open>
  Claim C9, amended. At inclination exactly \<open>0\<close>, \<open>gen_NRTidalv2_hphc\<close> returns
  \<open>hp = h0\<close> and \<open>hc = - \<i> * h0\<close> for every combined strain \<open>h0\<close>; the cross
  polarization has the modulus of \<open>h0\<close> and vanishes only where \<open>h0\<close> does.
\<close>

theorem face_on_projection:
  "last params = 0 \<Longrightarrow>
     gen_NRTidalv2_hphc K E f params f_ref IMRphenom =
       (gen_NRTidalv2 K E f (butlast params) f_ref IMRphenom,
        map (\<lambda>h. - \<i> * h) (gen_NRTidalv2 K E f (butlast params) f_ref IMRphenom))"
  by (simp add: gen_NRTidalv2_hphc_def Let_def)

theorem face_on_projection_witness:
  "last [6 / 5, 1 / 4, 0, 0, 0, 0, 40, 0, 0, 0 :: real] = 0
   \<and> gen_NRTidalv2_hphc sample_constants sample_collaborators [100]
        [6 / 5, 1 / 4, 0, 0, 0, 0, 40, 0, 0, 0] 20 ''IMRPhenomD'' = ([1], [- \<i>])"
  using face_on_projection [of "[6 / 5, 1 / 4, 0, 0, 0, 0, 40, 0, 0, 0]" sample_constants sample_collaborators
      "[100]" 20 "''IMRPhenomD''"]
  by (simp add: sample_strain)

lemma cos_amgm:
  fixes c :: real
  shows "\<bar>c\<bar> \<le> 1 / 2 * (1 + c ^ 2)" and "\<bar>c\<bar> = 1 / 2 * (1 + c ^ 2) \<longleftrightarrow> \<bar>c\<bar> = 1"
proof -
  have sq: "c ^ 2 = \<bar>c\<bar> ^ 2" by simp
  have id: "1 / 2 * (1 + c ^ 2) - \<bar>c\<bar> = 1 / 2 * (\<bar>c\<bar> - 1) ^ 2"
    unfolding sq by (simp add: power2_eq_square algebra_simps)
  have "0 \<le> 1 / 2 * (\<bar>c\<bar> - 1) ^ 2" by simp
  with id show "\<bar>c\<bar> \<le> 1 / 2 * (1 + c ^ 2)" by linarith
  have "\<bar>c\<bar> = 1 / 2 * (1 + c ^ 2) \<longleftrightarrow> 1 / 2 * (\<bar>c\<bar> - 1) ^ 2 = 0"
    using id by linarith
  also have "\<dots> \<longleftrightarrow> \<bar>c\<bar> = 1" by simp
  finally show "\<bar>c\<bar> = 1 / 2 * (1 + c ^ 2) \<longleftrightarrow> \<bar>c\<bar> = 1" .
qed

lemma cmod_cross: "cmod (- \<i> * h * of_real c) = cmod h * \<bar>c\<bar>"
  by (simp add: norm_mult)

lemma cmod_plus: "cmod (h * of_real (1 / 2 * (1 + c ^ 2))) = cmod h * (1 / 2 * (1 + c ^ 2))"
proof -
  have "0 \<le> 1 / 2 * (1 + c ^ 2)" by simp
  then have "\<bar>1 / 2 * (1 + c ^ 2)\<bar> = 1 / 2 * (1 + c ^ 2)" by (rule abs_of_nonneg)
  then show ?thesis by (simp only: norm_mult norm_of_real)
qed

lemma cmod_cross_le:
  "cmod (- \<i> * h * of_real c) \<le> cmod (h * of_real (1 / 2 * (1 + c ^ 2)))"
  unfolding cmod_cross cmod_plus
  by (intro mult_left_mono cos_amgm(1)) simp

lemma cmod_cross_eq:
  "cmod (- \<i> * h * of_real c) = cmod (h * of_real (1 / 2 * (1 + c ^ 2)))
     \<longleftrightarrow> \<bar>c\<bar> = 1 \<or> h = 0"
  unfolding cmod_cross cmod_plus using cos_amgm(2) [of c] by auto

text \<open>
  Claim C10. For every inclination and every combined strain, the two polarizations of
  \<open>gen_NRTidalv2_hphc\<close> satisfy \<open>|hc| \<le> |hp|\<close> at every sample, and the two moduli
  are equal at a sample exactly when \<open>|cos \<iota>| = 1\<close> or the strain vanishes there.
\<close>

theorem cross_not_above_plus:
  "(let h0 = gen_NRTidalv2 K E f (butlast params) f_ref IMRphenom;
        (hp, hc) = gen_NRTidalv2_hphc K E f params f_ref IMRphenom
    in length hp = length h0 \<and> length hc = length h0
       \<and> (\<forall>i < length h0.
             cmod (hc ! i) \<le> cmod (hp ! i)
           \<and> (cmod (hc ! i) = cmod (hp ! i) \<longleftrightarrow> \<bar>cos (last params)\<bar> = 1 \<or> h0 ! i = 0)))"
  unfolding gen_NRTidalv2_hphc_def Let_def split_conv
  by (intro conjI allI impI; simp only: length_map nth_map cmod_cross_le cmod_cross_eq)

theorem cross_not_above_plus_witness:
  "(let h0 = gen_NRTidalv2 sample_constants sample_collaborators [100]
                (butlast [6 / 5, 1 / 4, 0, 0, 0, 0, 40, 0, 0, pi / 3]) 20 ''IMRPhenomD'';
        (hp, hc) = gen_NRTidalv2_hphc sample_constants sample_collaborators [100]
                [6 / 5, 1 / 4, 0, 0, 0, 0, 40, 0, 0, pi / 3] 20 ''IMRPhenomD''
    in h0 = [1] \<and> hp = [5 / 8] \<and> hc = [- \<i> / 2] \<and> (0::nat) < length h0
       \<and> cmod (hc ! 0) \<le> cmod (hp ! 0) \<and> cmod (hc ! 0) \<noteq> cmod (hp ! 0)
       \<and> \<bar>cos (last [6 / 5, 1 / 4, 0, 0, 0, 0, 40, 0, 0, pi / 3])\<bar> \<noteq> 1 \<and> h0 ! 0 \<noteq> 0)"
proof -
  have b: "butlast [6 / 5, 1 / 4, 0, 0, 0, 0, 40, 0, 0, pi / 3] = [6 / 5, 1 / 4, 0, 0, 0, 0, 40, 0, 0]"
    by simp
  show ?thesis
    using cross_not_above_plus [of sample_constants sample_collaborators "[100]"
      "[6 / 5, 1 / 4, 0, 0, 0, 0, 40, 0, 0, pi / 3]" 20 "''IMRPhenomD''"]
    unfolding b sample_strain
    by (simp add: sample_strain gen_NRTidalv2_hphc_def Let_def cos_60 power2_eq_square norm_divide)
qed

end
